theory Spec2Isabelle
  imports Complex_Main
begin

section \<open>The wind-tunnel acquisition sketch (WinTunnel.ino)\<close>

text \<open>
  The sketch has one global variable that changes (\<open>pressure0\<close>), a \<open>setup\<close> routine
  and a \<open>loop\<close> routine that the Arduino runtime calls for ever. One call of \<open>loop\<close>
  reads four HX711 load cells, one analog pin and the DHT11, derives the dynamic
  pressure, the air density and the wind speed, and prints one CSV row on \<open>Serial\<close>.

  The embedding is a state-passing one: \<open>loop\<close> takes the values the sensors return in
  that cycle and the global state, and returns the values of its local variables, the
  global state afterwards and what it wrote to \<open>Serial\<close>.
\<close>

subsection \<open>The values of the C type float\<close>

text \<open>
  A \<open>float\<close> of the sketch is a finite number, a negative zero, an infinity or a NaN.
  \<open>Fin r\<close> is the finite value \<open>r\<close> (\<open>Fin 0\<close> is the positive zero), \<open>NZero\<close> the negative
  zero. The special values follow IEEE 754: what an operation returns on zeros,
  infinities and NaN, and the sign of a zero result. Arithmetic on finite values is
  exact: rounding to 24 bits, overflow to an infinity and underflow are not modelled,
  and a decimal literal of the source (\<open>273.15\<close>, \<open>287.05\<close>) stands for that decimal
  number. On the AVR target \<open>double\<close> is the same type as \<open>float\<close>, so the \<open>double\<close>
  literals and the \<open>double\<close> intermediate results of the source are values of this type.
\<close>

datatype float = Fin real | NZero | PInf | NInf | NaN

fun val :: "float \<Rightarrow> real" where
  "val (Fin r) = r"
| "val _ = 0"

definition is_zero :: "float \<Rightarrow> bool" where
  "is_zero x = (x = Fin 0 \<or> x = NZero)"

definition is_inf :: "float \<Rightarrow> bool" where
  "is_inf x = (x = PInf \<or> x = NInf)"

fun sign_bit :: "float \<Rightarrow> bool" where
  "sign_bit (Fin r) = (r < 0)"
| "sign_bit NZero = True"
| "sign_bit PInf = False"
| "sign_bit NInf = True"
| "sign_bit NaN = False"

definition signed_zero :: "bool \<Rightarrow> float" where
  "signed_zero s = (if s then NZero else Fin 0)"

definition signed_inf :: "bool \<Rightarrow> float" where
  "signed_inf s = (if s then NInf else PInf)"

definition finite_result :: "bool \<Rightarrow> real \<Rightarrow> float" where
  "finite_result s r = (if r = 0 then signed_zero s else Fin r)"

text \<open>Conversion of an \<open>int\<close> to \<open>float\<close> (exact for the 16-bit \<open>int\<close> of the target).\<close>

definition float_of_int :: "int \<Rightarrow> float" where
  "float_of_int a = Fin (of_int a)"

fun fneg :: "float \<Rightarrow> float" where
  "fneg (Fin r) = (if r = 0 then NZero else Fin (- r))"
| "fneg NZero = Fin 0"
| "fneg PInf = NInf"
| "fneg NInf = PInf"
| "fneg NaN = NaN"

text \<open>
  Addition. An exact sum of zero is the positive zero (round to nearest), except that
  the sum of two negative zeros is the negative zero.
\<close>

fun fadd :: "float \<Rightarrow> float \<Rightarrow> float" where
  "fadd NaN _ = NaN"
| "fadd _ NaN = NaN"
| "fadd PInf NInf = NaN"
| "fadd NInf PInf = NaN"
| "fadd PInf _ = PInf"
| "fadd _ PInf = PInf"
| "fadd NInf _ = NInf"
| "fadd _ NInf = NInf"
| "fadd NZero NZero = NZero"
| "fadd x y = Fin (val x + val y)"

definition fsub :: "float \<Rightarrow> float \<Rightarrow> float" where
  "fsub x y = fadd x (fneg y)"

text \<open>Multiplication: the sign of the result is the exclusive or of the signs.\<close>

fun fmul :: "float \<Rightarrow> float \<Rightarrow> float" where
  "fmul NaN _ = NaN"
| "fmul _ NaN = NaN"
| "fmul x y =
     (if is_inf x \<or> is_inf y
      then (if is_zero x \<or> is_zero y then NaN else signed_inf (sign_bit x \<noteq> sign_bit y))
      else finite_result (sign_bit x \<noteq> sign_bit y) (val x * val y))"

text \<open>
  Division: \<open>inf / inf\<close> and \<open>0 / 0\<close> are NaN, a non-zero value divided by a zero is
  an infinity, a finite value divided by an infinity is a zero.
\<close>

fun fdiv :: "float \<Rightarrow> float \<Rightarrow> float" where
  "fdiv NaN _ = NaN"
| "fdiv _ NaN = NaN"
| "fdiv x y =
     (if is_inf x then (if is_inf y then NaN else signed_inf (sign_bit x \<noteq> sign_bit y))
      else if is_inf y then signed_zero (sign_bit x \<noteq> sign_bit y)
      else if is_zero y
        then (if is_zero x then NaN else signed_inf (sign_bit x \<noteq> sign_bit y))
      else finite_result (sign_bit x \<noteq> sign_bit y) (val x / val y))"

text \<open>The comparison \<open>a > b\<close>: false when either side is NaN; the two zeros are equal.\<close>

fun fgt :: "float \<Rightarrow> float \<Rightarrow> bool" where
  "fgt NaN _ = False"
| "fgt _ NaN = False"
| "fgt _ PInf = False"
| "fgt PInf _ = True"
| "fgt NInf _ = False"
| "fgt _ NInf = True"
| "fgt x y = (val x > val y)"

text \<open>
  A \<open>float\<close> used as a condition (\<open>if (pressure0)\<close>) is true when it compares unequal
  to zero: both zeros are false, every other value, NaN included, is true.
\<close>

definition to_bool :: "float \<Rightarrow> bool" where
  "to_bool x = (\<not> is_zero x)"

text \<open>
  Modelled from the spec: the library functions \<open>isnan\<close>, \<open>sqrt\<close> (avr-libc) and the
  macro \<open>max\<close> (Arduino.h, \<open>((a)>(b)?(a):(b))\<close>) are not part of the repository. The
  spec writes them \<open>invalid\<close>, \<open>sqrt\<close> and \<open>max(pressurePa, 0)\<close>. The square root of a
  negative number or of the negative infinity is NaN, that of a negative zero is the
  negative zero.
\<close>

definition isnan :: "float \<Rightarrow> bool" where
  "isnan x = (x = NaN)"

fun fsqrt :: "float \<Rightarrow> float" where
  "fsqrt (Fin r) = (if r < 0 then NaN else Fin (sqrt r))"
| "fsqrt NZero = NZero"
| "fsqrt PInf = PInf"
| "fsqrt NInf = NaN"
| "fsqrt NaN = NaN"

definition max_macro :: "float \<Rightarrow> float \<Rightarrow> float" where
  "max_macro a b = (if fgt a b then a else b)"

text \<open>
  A value that is defined, finite and not negative: a number from 0 up, or the negative
  zero (which compares equal to zero).
\<close>

definition finite_nonneg :: "float \<Rightarrow> bool" where
  "finite_nonneg x = (case x of Fin r \<Rightarrow> 0 \<le> r | NZero \<Rightarrow> True | _ \<Rightarrow> False)"

subsection \<open>Constants and the global state\<close>

definition Vcc :: float where "Vcc = Fin 5"
definition ADC_RES :: float where "ADC_RES = Fin 1023"
definition P_max :: float where "P_max = Fin 2"
definition V_offset :: float where "V_offset = Fin (1 / 2)"
definition atm_pressure :: float where "atm_pressure = Fin 101325"

record state =
  pressure0 :: float

text \<open>The initial value of the global: \<open>float pressure0 = 0\<close>.\<close>

definition boot :: state where
  "boot = \<lparr>pressure0 = Fin 0\<rparr>"

subsection \<open>The serial stream\<close>

text \<open>
  The sketch writes to one device, \<open>Serial\<close>. What it writes is the list of its calls:
  \<open>Serial.print(x, d)\<close> and \<open>Serial.println(x, d)\<close> of a \<open>float\<close> with \<open>d\<close> decimal
  places, \<open>Serial.print(s)\<close> and \<open>Serial.println(s)\<close> of a string. The characters a
  call produces are the Arduino core's business (class \<open>Print\<close>), not the sketch's.
\<close>

datatype serial_out =
    Print_float float nat
  | Print_str string
  | Println_float float nat
  | Println_str string

text \<open>The three string literals of the sketch that carry a non-ASCII sign, as bytes.\<close>

definition setup_started :: string where
  "setup_started = [CHR 0xE2, CHR 0x9C, CHR 0x85] @ '' Arduino setup started...''"

definition sensors_initialized :: string where
  "sensors_initialized = [CHR 0xE2, CHR 0x9C, CHR 0x85] @ '' Sensors initialized''"

definition dht_failed :: string where
  "dht_failed =
     [CHR 0xE2, CHR 0x9A, CHR 0xA0, CHR 0xEF, CHR 0xB8, CHR 0x8F] @ '' DHT11 read failed!''"

definition csv_header :: string where
  "csv_header = ''WindSpeed(m/s),Density(kg/m^3),Load1,Load2,Load3,Load4,Temperature(C)''"

text \<open>\<open>setup()\<close>: what it prints. Its other calls configure the drivers.\<close>

definition setup_serial :: "serial_out list" where
  "setup_serial = [Println_str setup_started, Println_str sensors_initialized, Println_str csv_header]"

subsection \<open>One call of loop()\<close>

text \<open>
  The inputs of a cycle are what the drivers return: for each HX711 whether it is ready
  and what \<open>get_units()\<close> would return, the value of \<open>analogRead(PT)\<close>, and the value of
  \<open>dht.readTemperature()\<close> (NaN when the read failed).
\<close>

record scale =
  is_ready :: bool
  get_units :: float

record inputs =
  scale1 :: scale
  scale2 :: scale
  scale3 :: scale
  scale4 :: scale
  analogRead :: int
  readTemperature :: float

text \<open>
  The frame of a call: the local variables at the end of the body, \<open>raw_Pa\<close> (the
  value of \<open>pressure_Pa\<close> at line 80, before the zero offset), the global state
  afterwards and the calls made on \<open>Serial\<close>.
\<close>

record frame =
  f1 :: float
  f2 :: float
  f3 :: float
  f4 :: float
  adcValue :: int
  voltage :: float
  raw_Pa :: float
  pressure_Pa :: float
  dynamicPressure :: float
  temperature :: float
  temperatureK :: float
  density :: float
  windSpeed :: float
  after :: state
  serial :: "serial_out list"

text \<open>Lines 76 to 80: the voltage of the pitot sensor and the pressure in Pa.\<close>

definition to_voltage :: "int \<Rightarrow> float" where
  "to_voltage adc = fmul (fdiv (float_of_int adc) ADC_RES) Vcc"

definition to_pressure :: "float \<Rightarrow> float" where
  "to_pressure v =
     fmul (fmul (fsub v V_offset) (fdiv P_max (fsub Vcc (fmul (float_of_int 2) V_offset))))
       (Fin 1000)"

text \<open>
  Lines 81 to 85: the zero offset. It returns \<open>pressure_Pa\<close> and \<open>pressure0\<close> as they
  are after the conditional.
\<close>

definition zero_offset :: "float \<Rightarrow> float \<Rightarrow> float \<times> float" where
  "zero_offset p p0 = (if to_bool p0 then (fsub p p0, p0) else (p, p))"

text \<open>Lines 95 to 99: density and wind speed.\<close>

definition to_density :: "float \<Rightarrow> float \<Rightarrow> float" where
  "to_density dp tK = fdiv (fsub atm_pressure dp) (fmul (Fin (28705 / 100)) tK)"

definition to_windSpeed :: "float \<Rightarrow> float \<Rightarrow> float" where
  "to_windSpeed dp rho = fsqrt (fdiv (fmul (Fin 2) dp) rho)"

text \<open>Lines 102 to 108: the CSV row.\<close>

definition csv_row :: "float \<Rightarrow> float \<Rightarrow> float \<Rightarrow> float \<Rightarrow> float \<Rightarrow> float \<Rightarrow> float
    \<Rightarrow> serial_out list" where
  "csv_row ws rho a b c d t =
     [Print_float ws 2, Print_str '','',
      Print_float rho 3, Print_str '','',
      Print_float a 2, Print_str '','',
      Print_float b 2, Print_str '','',
      Print_float c 2, Print_str '','',
      Print_float d 2, Print_str '','',
      Println_float t 1]"

definition loop :: "inputs \<Rightarrow> state \<Rightarrow> frame" where
  "loop i s =
     (let a = (if is_ready (scale1 i) then get_units (scale1 i) else Fin 0);
          b = (if is_ready (scale2 i) then get_units (scale2 i) else Fin 0);
          c = (if is_ready (scale3 i) then get_units (scale3 i) else Fin 0);
          d = (if is_ready (scale4 i) then get_units (scale4 i) else Fin 0);
          adc = analogRead i;
          v = to_voltage adc;
          raw = to_pressure v;
          (p, p0) = zero_offset raw (pressure0 s);
          dp = max_macro p (Fin 0);
          t0 = readTemperature i;
          t = (if isnan t0 then Fin (- 99) else t0);
          notice = (if isnan t0 then [Println_str dht_failed] else []);
          tK = fadd t (Fin (27315 / 100));
          rho = to_density dp tK;
          ws = to_windSpeed dp rho
      in \<lparr>f1 = a, f2 = b, f3 = c, f4 = d, adcValue = adc, voltage = v, raw_Pa = raw,
          pressure_Pa = p, dynamicPressure = dp, temperature = t, temperatureK = tK,
          density = rho, windSpeed = ws, after = s\<lparr>pressure0 := p0\<rparr>,
          serial = notice @ csv_row ws rho a b c d t\<rparr>)"

text \<open>The Arduino runtime calls \<open>loop\<close> again and again: the frames of a run.\<close>

fun run :: "state \<Rightarrow> inputs list \<Rightarrow> frame list" where
  "run s [] = []"
| "run s (i # is) = (let fr = loop i s in fr # run (after fr) is)"

subsection \<open>Reading the stream\<close>

text \<open>
  A line of the stream ends with a \<open>println\<close>. A CSV row is a line of \<open>float\<close> prints
  separated by prints of the string \<open>","\<close>; its fields are the values printed, each
  with its number of decimal places.
\<close>

fun ends_line :: "serial_out \<Rightarrow> bool" where
  "ends_line (Println_float _ _) = True"
| "ends_line (Println_str _) = True"
| "ends_line _ = False"

fun serial_lines :: "serial_out list \<Rightarrow> serial_out list list" where
  "serial_lines [] = []"
| "serial_lines (x # xs) =
     (if ends_line x then [x] # serial_lines xs
      else (case serial_lines xs of [] \<Rightarrow> [[x]] | l # ls \<Rightarrow> (x # l) # ls))"

fun csv_fields :: "serial_out list \<Rightarrow> (float \<times> nat) list option" where
  "csv_fields [Println_float x d] = Some [(x, d)]"
| "csv_fields (Print_float x d # Print_str sep # rest) =
     (if sep = '','' then map_option ((#) (x, d)) (csv_fields rest) else None)"
| "csv_fields _ = None"

text \<open>The data row of a cycle: the last line it wrote.\<close>

definition data_row :: "frame \<Rightarrow> serial_out list" where
  "data_row fr = last (serial_lines (serial fr))"

subsection \<open>The pressure of a reading\<close>

text \<open>
  The uncorrected pressure of an ADC reading (line 80), and the exact number it is.
\<close>

definition pressure_of :: "int \<Rightarrow> float" where
  "pressure_of adc = to_pressure (to_voltage adc)"

definition pressure_real :: "int \<Rightarrow> real" where
  "pressure_real adc = (of_int adc * 5 / 1023 - 1 / 2) * 500"

subsection \<open>Predicates and sample inputs\<close>

text \<open>A density that is "zero or negative": a zero of either sign, a negative number
  or the negative infinity.\<close>

definition nonpositive :: "float \<Rightarrow> bool" where
  "nonpositive x = (case x of Fin r \<Rightarrow> r \<le> 0 | NZero \<Rightarrow> True | NInf \<Rightarrow> True | _ \<Rightarrow> False)"

text \<open>
  The baselines a run can hold when every ADC reading is in the range of the 10-bit
  converter: the initial zero, or the pressure of such a reading.
\<close>

definition baseline_reachable :: "state \<Rightarrow> bool" where
  "baseline_reachable s =
     (pressure0 s = Fin 0 \<or> (\<exists>a \<in> {0 .. 1023}. pressure0 s = pressure_of a))"


text \<open>Inputs of a cycle, to run the sketch on.\<close>

definition ready :: "float \<Rightarrow> scale" where
  "ready x = \<lparr>is_ready = True, get_units = x\<rparr>"

definition not_ready :: "float \<Rightarrow> scale" where
  "not_ready x = \<lparr>is_ready = False, get_units = x\<rparr>"

definition sample_inputs :: "int \<Rightarrow> float \<Rightarrow> inputs" where
  "sample_inputs adc t =
     \<lparr>scale1 = ready (Fin 1), scale2 = ready (Fin 2), scale3 = ready (Fin 3),
      scale4 = ready (Fin 4), analogRead = adc, readTemperature = t\<rparr>"

definition all_not_ready :: inputs where
  "all_not_ready =
     \<lparr>scale1 = not_ready (Fin 1), scale2 = not_ready (Fin 2), scale3 = not_ready (Fin 3),
      scale4 = not_ready (Fin 4), analogRead = 512, readTemperature = Fin 20\<rparr>"

section \<open>Properties\<close>

subsection \<open>Arithmetic on finite values\<close>

lemma fadd_Fin: "fadd (Fin a) (Fin b) = Fin (a + b)"
  by simp

lemma fsub_Fin: "fsub (Fin a) (Fin b) = Fin (a - b)"
  by (simp add: fsub_def)

lemma fmul_Fin_pos: "0 < b \<Longrightarrow> fmul (Fin a) (Fin b) = Fin (a * b)"
  by (auto simp: is_inf_def is_zero_def finite_result_def signed_zero_def)

lemma fdiv_Fin_pos: "0 < b \<Longrightarrow> fdiv (Fin a) (Fin b) = Fin (a / b)"
  by (auto simp: is_inf_def is_zero_def finite_result_def signed_zero_def)

lemma to_voltage_Fin: "to_voltage adc = Fin (of_int adc * 5 / 1023)"
  by (simp add: to_voltage_def float_of_int_def ADC_RES_def Vcc_def fmul_Fin_pos fdiv_Fin_pos
      del: fmul.simps fdiv.simps)

lemma to_pressure_Fin: "to_pressure (Fin v) = Fin ((v - 1 / 2) * 500)"
  by (simp add: to_pressure_def float_of_int_def V_offset_def Vcc_def P_max_def
      fsub_Fin fmul_Fin_pos fdiv_Fin_pos del: fmul.simps fdiv.simps)

lemma pressure_of_Fin: "pressure_of adc = Fin (pressure_real adc)"
  by (simp add: pressure_of_def to_voltage_Fin to_pressure_Fin pressure_real_def)

lemma pressure_real_nonzero: "pressure_real adc \<noteq> 0"
proof
  assume "pressure_real adc = 0"
  then have "real_of_int adc * 10 = 1023"
    by (simp add: pressure_real_def field_simps)
  then have "real_of_int (adc * 10) = real_of_int 1023"
    by simp
  then have "adc * 10 = 1023"
    by (simp only: of_int_eq_iff)
  then show False
    by presburger
qed

lemma pressure_real_bounds:
  "0 \<le> adc \<Longrightarrow> adc \<le> 1023 \<Longrightarrow> - 250 \<le> pressure_real adc \<and> pressure_real adc \<le> 2250"
  by (simp add: pressure_real_def field_simps)

subsection \<open>The local variables of a call\<close>

lemma f1_loop: "f1 (loop i s) = (if is_ready (scale1 i) then get_units (scale1 i) else Fin 0)"
  by (simp add: loop_def Let_def split: prod.splits)

lemma f2_loop: "f2 (loop i s) = (if is_ready (scale2 i) then get_units (scale2 i) else Fin 0)"
  by (simp add: loop_def Let_def split: prod.splits)

lemma f3_loop: "f3 (loop i s) = (if is_ready (scale3 i) then get_units (scale3 i) else Fin 0)"
  by (simp add: loop_def Let_def split: prod.splits)

lemma f4_loop: "f4 (loop i s) = (if is_ready (scale4 i) then get_units (scale4 i) else Fin 0)"
  by (simp add: loop_def Let_def split: prod.splits)

lemma raw_Pa_loop: "raw_Pa (loop i s) = pressure_of (analogRead i)"
  by (simp add: loop_def Let_def pressure_of_def split: prod.splits)

lemma pressure_Pa_loop:
  "pressure_Pa (loop i s) = fst (zero_offset (pressure_of (analogRead i)) (pressure0 s))"
  by (simp add: loop_def Let_def pressure_of_def split: prod.splits)

lemma after_loop:
  "pressure0 (after (loop i s)) = snd (zero_offset (pressure_of (analogRead i)) (pressure0 s))"
  by (simp add: loop_def Let_def pressure_of_def split: prod.splits)

lemma dynamicPressure_loop:
  "dynamicPressure (loop i s) = max_macro (pressure_Pa (loop i s)) (Fin 0)"
  by (simp add: loop_def Let_def split: prod.splits)

lemma temperature_loop:
  "temperature (loop i s) = (if isnan (readTemperature i) then Fin (- 99) else readTemperature i)"
  by (simp add: loop_def Let_def split: prod.splits)

lemma temperatureK_loop:
  "temperatureK (loop i s) = fadd (temperature (loop i s)) (Fin (27315 / 100))"
  by (simp add: loop_def Let_def split: prod.splits)

lemma density_loop:
  "density (loop i s) = to_density (dynamicPressure (loop i s)) (temperatureK (loop i s))"
  by (simp add: loop_def Let_def split: prod.splits)

lemma windSpeed_loop:
  "windSpeed (loop i s) = to_windSpeed (dynamicPressure (loop i s)) (density (loop i s))"
  by (simp add: loop_def Let_def split: prod.splits)

lemma serial_loop:
  "serial (loop i s) =
     (if isnan (readTemperature i) then [Println_str dht_failed] else []) @
     csv_row (windSpeed (loop i s)) (density (loop i s)) (f1 (loop i s)) (f2 (loop i s))
       (f3 (loop i s)) (f4 (loop i s)) (temperature (loop i s))"
  by (simp add: loop_def Let_def split: prod.splits)

subsection \<open>The lines of a cycle\<close>

lemma serial_lines_csv_row: "serial_lines (csv_row ws rho a b c d t) = [csv_row ws rho a b c d t]"
  by (simp add: csv_row_def)

lemma csv_fields_csv_row:
  "csv_fields (csv_row ws rho a b c d t) =
     Some [(ws, 2), (rho, 3), (a, 2), (b, 2), (c, 2), (d, 2), (t, 1)]"
  by (simp add: csv_row_def)

lemma serial_lines_loop:
  "serial_lines (serial (loop i s)) =
     (if isnan (readTemperature i) then [[Println_str dht_failed]] else []) @
     [csv_row (windSpeed (loop i s)) (density (loop i s)) (f1 (loop i s)) (f2 (loop i s))
       (f3 (loop i s)) (f4 (loop i s)) (temperature (loop i s))]"
  by (simp add: serial_loop serial_lines_csv_row)

lemma data_row_loop:
  "data_row (loop i s) =
     csv_row (windSpeed (loop i s)) (density (loop i s)) (f1 (loop i s)) (f2 (loop i s))
       (f3 (loop i s)) (f4 (loop i s)) (temperature (loop i s))"
  by (simp add: data_row_def serial_lines_loop)

lemma max_macro_zero_cases:
  "max_macro p (Fin 0) = PInf \<or> (\<exists>r. 0 \<le> r \<and> max_macro p (Fin 0) = Fin r)"
  by (cases p) (auto simp: max_macro_def)

subsection \<open>The sample inputs\<close>

lemma sample_simps:
  "analogRead (sample_inputs adc t) = adc"
  "readTemperature (sample_inputs adc t) = t"
  "is_ready (scale1 (sample_inputs adc t))" "get_units (scale1 (sample_inputs adc t)) = Fin 1"
  "is_ready (scale2 (sample_inputs adc t))" "get_units (scale2 (sample_inputs adc t)) = Fin 2"
  "is_ready (scale3 (sample_inputs adc t))" "get_units (scale3 (sample_inputs adc t)) = Fin 3"
  "is_ready (scale4 (sample_inputs adc t))" "get_units (scale4 (sample_inputs adc t)) = Fin 4"
  by (simp_all add: sample_inputs_def ready_def)

lemma all_not_ready_simps:
  "analogRead all_not_ready = 512"
  "readTemperature all_not_ready = Fin 20"
  "\<not> is_ready (scale1 all_not_ready)" "\<not> is_ready (scale2 all_not_ready)"
  "\<not> is_ready (scale3 all_not_ready)" "\<not> is_ready (scale4 all_not_ready)"
  by (simp_all add: all_not_ready_def not_ready_def)

subsection \<open>The baseline\<close>

lemma to_bool_pressure_of: "to_bool (pressure_of adc)"
  by (simp add: pressure_of_Fin to_bool_def is_zero_def pressure_real_nonzero)

lemma zero_offset_set: "to_bool p0 \<Longrightarrow> zero_offset p p0 = (fsub p p0, p0)"
  by (simp add: zero_offset_def)

lemma zero_offset_unset: "\<not> to_bool p0 \<Longrightarrow> zero_offset p p0 = (p, p)"
  by (simp add: zero_offset_def)

lemma after_loop_set: "to_bool (pressure0 s) \<Longrightarrow> pressure0 (after (loop i s)) = pressure0 s"
  by (simp add: after_loop zero_offset_set)

lemma after_loop_unset:
  "\<not> to_bool (pressure0 s) \<Longrightarrow> pressure0 (after (loop i s)) = pressure_of (analogRead i)"
  by (simp add: after_loop zero_offset_unset)

lemma run_keeps_baseline:
  "to_bool (pressure0 s) \<Longrightarrow> fr \<in> set (run s is) \<Longrightarrow> pressure0 (after fr) = pressure0 s"
proof (induction "is" arbitrary: s)
  case Nil
  then show ?case by simp
next
  case (Cons i "is")
  from Cons.prems(2) have "fr = loop i s \<or> fr \<in> set (run (after (loop i s)) is)"
    by (simp add: Let_def)
  then show ?case
  proof
    assume "fr = loop i s"
    with Cons.prems(1) show ?thesis by (simp add: after_loop_set)
  next
    assume in_rest: "fr \<in> set (run (after (loop i s)) is)"
    have "to_bool (pressure0 (after (loop i s)))"
      using Cons.prems(1) by (simp add: after_loop_set)
    from Cons.IH [OF this in_rest] show ?thesis
      using Cons.prems(1) by (simp add: after_loop_set)
  qed
qed

lemma run_from_unset:
  assumes "\<not> to_bool (pressure0 s)" and "fr \<in> set (run s (i # is))"
  shows "pressure0 (after fr) = pressure_of (analogRead i)"
proof -
  from assms(2) have "fr = loop i s \<or> fr \<in> set (run (after (loop i s)) is)"
    by (simp add: Let_def)
  then show ?thesis
  proof
    assume "fr = loop i s"
    with assms(1) show ?thesis by (simp add: after_loop_unset)
  next
    assume in_rest: "fr \<in> set (run (after (loop i s)) is)"
    have "to_bool (pressure0 (after (loop i s)))"
      using assms(1) by (simp add: after_loop_unset to_bool_pressure_of)
    from run_keeps_baseline [OF this in_rest] show ?thesis
      using assms(1) by (simp add: after_loop_unset)
  qed
qed

lemma not_to_bool_boot: "\<not> to_bool (pressure0 boot)"
  by (simp add: boot_def to_bool_def is_zero_def)

lemma fsub_pressure_same: "fsub (pressure_of a) (pressure_of a) = Fin 0"
  by (simp add: pressure_of_Fin fsub_Fin)

lemma max_macro_zero_zero: "max_macro (Fin 0) (Fin 0) = Fin 0"
  by (simp add: max_macro_def)

lemma dp_after_capture:
  assumes "\<not> to_bool (pressure0 s)" and "analogRead j = analogRead i"
  shows "dynamicPressure (loop j (after (loop i s))) = Fin 0"
proof -
  have set: "pressure0 (after (loop i s)) = pressure_of (analogRead i)"
    using assms(1) by (rule after_loop_unset)
  then have "to_bool (pressure0 (after (loop i s)))"
    by (simp add: to_bool_pressure_of)
  then have "pressure_Pa (loop j (after (loop i s))) =
      fsub (pressure_of (analogRead j)) (pressure0 (after (loop i s)))"
    by (simp add: pressure_Pa_loop zero_offset_set)
  then show ?thesis
    by (simp add: dynamicPressure_loop set assms(2) fsub_pressure_same max_macro_zero_zero)
qed

lemma run2: "run s [i, j] = [loop i s, loop j (after (loop i s))]"
  by (simp add: Let_def)

subsection \<open>The derivation on reachable values\<close>

lemma fmul_Fin_nonneg: "0 \<le> a \<Longrightarrow> 0 \<le> b \<Longrightarrow> fmul (Fin a) (Fin b) = Fin (a * b)"
  by (auto simp: is_inf_def is_zero_def finite_result_def signed_zero_def)

lemma fmul_Fin_nz: "a \<noteq> 0 \<Longrightarrow> b \<noteq> 0 \<Longrightarrow> fmul (Fin a) (Fin b) = Fin (a * b)"
  by (auto simp: is_inf_def is_zero_def finite_result_def signed_zero_def)

lemma fdiv_Fin_nz: "a \<noteq> 0 \<Longrightarrow> b \<noteq> 0 \<Longrightarrow> fdiv (Fin a) (Fin b) = Fin (a / b)"
  by (auto simp: is_inf_def is_zero_def finite_result_def signed_zero_def)

lemma max_macro_Fin: "max_macro (Fin p) (Fin 0) = Fin (max p 0)"
  by (simp add: max_macro_def max_def)

lemma to_density_Fin:
  "0 < tK \<Longrightarrow> to_density (Fin dp) (Fin tK) = Fin ((101325 - dp) / (28705 / 100 * tK))"
  by (simp add: to_density_def atm_pressure_def fsub_Fin fmul_Fin_pos fdiv_Fin_pos
      del: fmul.simps fdiv.simps)

lemma to_windSpeed_Fin:
  "0 \<le> dp \<Longrightarrow> 0 < rho \<Longrightarrow> to_windSpeed (Fin dp) (Fin rho) = Fin (sqrt (2 * dp / rho))"
proof -
  assume dp: "0 \<le> dp" and rho: "0 < rho"
  then have "\<not> 2 * dp / rho < 0"
    by (simp add: not_less)
  with dp rho show ?thesis
    by (simp add: to_windSpeed_def fmul_Fin_nonneg fdiv_Fin_pos del: fmul.simps fdiv.simps)
qed

lemma pressure_Pa_reachable:
  assumes "0 \<le> analogRead i" and "analogRead i \<le> 1023" and "baseline_reachable s"
  shows "\<exists>p. pressure_Pa (loop i s) = Fin p \<and> - 2500 \<le> p \<and> p \<le> 2500"
proof -
  let ?r = "pressure_real (analogRead i)"
  have r: "- 250 \<le> ?r \<and> ?r \<le> 2250"
    using assms(1,2) by (rule pressure_real_bounds)
  from assms(3) consider (unset) "pressure0 s = Fin 0"
    | (captured) a where "0 \<le> a" "a \<le> 1023" "pressure0 s = pressure_of a"
    by (auto simp: baseline_reachable_def)
  then show ?thesis
  proof cases
    case unset
    then have "pressure_Pa (loop i s) = Fin ?r"
      by (simp add: pressure_Pa_loop zero_offset_def to_bool_def is_zero_def pressure_of_Fin)
    with r show ?thesis by simp
  next
    case captured
    have q: "- 250 \<le> pressure_real a \<and> pressure_real a \<le> 2250"
      using captured(1,2) by (rule pressure_real_bounds)
    have "pressure_Pa (loop i s) = Fin (?r - pressure_real a)"
      using captured(3) to_bool_pressure_of [of a]
      by (simp add: pressure_Pa_loop zero_offset_set pressure_of_Fin fsub_Fin)
    with r q show ?thesis by simp
  qed
qed

lemma baseline_reachable_boot: "baseline_reachable boot"
  by (simp add: baseline_reachable_def boot_def)



lemma dynamicPressure_reachable:
  assumes "0 \<le> analogRead i" and "analogRead i \<le> 1023" and "baseline_reachable s"
  shows "\<exists>dp. dynamicPressure (loop i s) = Fin dp \<and> 0 \<le> dp \<and> dp \<le> 2500"
proof -
  obtain p where p: "pressure_Pa (loop i s) = Fin p" "- 2500 \<le> p" "p \<le> 2500"
    using pressure_Pa_reachable [OF assms] by blast
  then have "dynamicPressure (loop i s) = Fin (max p 0)"
    by (simp add: dynamicPressure_loop max_macro_Fin)
  moreover have "0 \<le> max p 0" "max p 0 \<le> 2500"
    using p by simp_all
  ultimately show ?thesis
    by blast
qed

subsection \<open>Sample cycles\<close>

lemma first_cycle_103:
  "dynamicPressure (loop (sample_inputs 103 (Fin 20)) boot) = Fin (1750 / 1023)"
  by (simp add: dynamicPressure_loop pressure_Pa_loop zero_offset_unset not_to_bool_boot
      sample_simps pressure_of_Fin pressure_real_def max_macro_Fin)

lemma first_cycle_103_windSpeed:
  "fgt (windSpeed (loop (sample_inputs 103 (Fin 20)) boot)) (Fin 0)"
proof -
  let ?fr = "loop (sample_inputs 103 (Fin 20)) boot"
  have tK: "temperatureK ?fr = Fin (29315 / 100)"
    by (simp add: temperatureK_loop temperature_loop sample_simps isnan_def)
  define rho :: real where "rho = (101325 - 1750 / 1023) / (28705 / 100 * (29315 / 100))"
  have rho_pos: "0 < rho"
    by (simp add: rho_def)
  have rho: "density ?fr = Fin rho"
    by (simp add: density_loop first_cycle_103 tK to_density_Fin rho_def)
  have "windSpeed ?fr = Fin (sqrt (2 * (1750 / 1023) / rho))"
    using rho_pos by (simp add: windSpeed_loop first_cycle_103 rho to_windSpeed_Fin)
  moreover have "0 < sqrt (2 * (1750 / 1023) / rho)"
    using rho_pos by simp
  ultimately show ?thesis
    by simp
qed

lemma dynamicPressure_cases:
  "dynamicPressure (loop i s) = PInf \<or> (\<exists>x. 0 \<le> x \<and> dynamicPressure (loop i s) = Fin x)"
  using max_macro_zero_cases [of "pressure_Pa (loop i s)"] by (simp add: dynamicPressure_loop)

lemma to_windSpeed_PInf:
  "nonpositive rho \<Longrightarrow>
     finite_nonneg (to_windSpeed PInf rho) = False"
  by (cases rho)
     (auto simp: to_windSpeed_def nonpositive_def finite_nonneg_def is_inf_def is_zero_def
       signed_inf_def signed_zero_def finite_result_def)

lemma to_windSpeed_nonpositive:
  assumes "0 \<le> x" and "nonpositive rho"
  shows "finite_nonneg (to_windSpeed (Fin x) rho) \<longleftrightarrow> (x = 0 \<and> \<not> is_zero rho) \<or> rho = NInf"
  using assms
  by (cases rho)
     (auto simp: to_windSpeed_def nonpositive_def finite_nonneg_def is_inf_def is_zero_def
       signed_inf_def signed_zero_def finite_result_def divide_less_0_iff zero_less_mult_iff)

lemma to_windSpeed_negative:
  assumes "0 < x" and "d < 0"
  shows "to_windSpeed (Fin x) (Fin d) = NaN"
  using assms
  by (auto simp: to_windSpeed_def is_inf_def is_zero_def
       signed_inf_def signed_zero_def finite_result_def divide_less_0_iff zero_less_mult_iff)

lemma to_windSpeed_PInf_negative:
  assumes "d < 0"
  shows "to_windSpeed PInf (Fin d) = NaN"
  using assms
  by (auto simp: to_windSpeed_def is_inf_def is_zero_def
       signed_inf_def signed_zero_def finite_result_def)

lemma to_density_Fin_neg:
  assumes "tK < 0" and "dp < 101325"
  shows "to_density (Fin dp) (Fin tK) = Fin ((101325 - dp) / (28705 / 100 * tK))"
  using assms
  by (simp add: to_density_def atm_pressure_def fsub_Fin fmul_Fin_nz fdiv_Fin_nz
      del: fmul.simps fdiv.simps)

lemma cold_dynamicPressure:
  "dynamicPressure (loop (sample_inputs 1023 (Fin (- 300))) boot) = Fin 2250"
  by (simp add: dynamicPressure_loop pressure_Pa_loop zero_offset_unset not_to_bool_boot
      sample_simps pressure_of_Fin pressure_real_def max_macro_Fin)

lemma still_dynamicPressure:
  "dynamicPressure (loop (sample_inputs 0 (Fin (- 300))) boot) = Fin 0"
  by (simp add: dynamicPressure_loop pressure_Pa_loop zero_offset_unset not_to_bool_boot
      sample_simps pressure_of_Fin pressure_real_def max_macro_Fin)

lemma cold_temperatureK:
  "temperatureK (loop (sample_inputs adc (Fin (- 300))) s) = Fin (- (2685 / 100))"
  by (simp add: temperatureK_loop temperature_loop sample_simps isnan_def)

lemma cold_density:
  "density (loop (sample_inputs 1023 (Fin (- 300))) boot) =
     Fin (99075 / (28705 / 100 * (- (2685 / 100))))"
  by (simp add: density_loop cold_dynamicPressure cold_temperatureK to_density_Fin_neg)

lemma still_density:
  "density (loop (sample_inputs 0 (Fin (- 300))) boot) =
     Fin (101325 / (28705 / 100 * (- (2685 / 100))))"
  by (simp add: density_loop still_dynamicPressure cold_temperatureK to_density_Fin_neg)

lemma cold_windSpeed: "windSpeed (loop (sample_inputs 1023 (Fin (- 300))) boot) = NaN"
  by (simp add: windSpeed_loop cold_dynamicPressure cold_density to_windSpeed_negative)

subsection \<open>The derivation written out\<close>

lemma density_unfolded:
  "density (loop i s) =
     fdiv (fsub (Fin 101325) (dynamicPressure (loop i s)))
       (fmul (Fin (28705 / 100)) (fadd (temperature (loop i s)) (Fin (27315 / 100))))"
  by (simp only: density_loop to_density_def atm_pressure_def temperatureK_loop)

lemma windSpeed_unfolded:
  "windSpeed (loop i s) =
     fsqrt (fdiv (fmul (Fin 2) (dynamicPressure (loop i s))) (density (loop i s)))"
  by (simp only: windSpeed_loop to_windSpeed_def)

lemma pressure_Pa_unfolded:
  "pressure_Pa (loop i s) =
     (if to_bool (pressure0 s)
      then fsub (Fin ((of_int (analogRead i) * 5 / 1023 - 1 / 2) * 500)) (pressure0 s)
      else Fin ((of_int (analogRead i) * 5 / 1023 - 1 / 2) * 500))"
  by (simp add: pressure_Pa_loop zero_offset_def pressure_of_Fin pressure_real_def)

lemma room_temperatureK:
  "temperatureK (loop (sample_inputs adc (Fin 20)) s) = Fin (29315 / 100)"
  by (simp add: temperatureK_loop temperature_loop sample_simps isnan_def)

lemma boot_dynamicPressure:
  "dynamicPressure (loop (sample_inputs adc t) boot) = Fin (max (pressure_real adc) 0)"
  by (simp add: dynamicPressure_loop pressure_Pa_loop zero_offset_unset not_to_bool_boot
      sample_simps pressure_of_Fin max_macro_Fin)

lemma zero_reading_frame:
  "dynamicPressure (loop (sample_inputs 0 (Fin 20)) boot) = Fin 0"
  "density (loop (sample_inputs 0 (Fin 20)) boot) = Fin (101325 / (28705 / 100 * (29315 / 100)))"
  "windSpeed (loop (sample_inputs 0 (Fin 20)) boot) = Fin 0"
proof -
  let ?fr = "loop (sample_inputs 0 (Fin 20)) boot"
  show dp: "dynamicPressure ?fr = Fin 0"
    by (simp add: boot_dynamicPressure pressure_real_def)
  show rho: "density ?fr = Fin (101325 / (28705 / 100 * (29315 / 100)))"
    by (simp add: density_loop dp room_temperatureK to_density_Fin)
  show "windSpeed ?fr = Fin 0"
    by (simp add: windSpeed_loop dp rho to_windSpeed_Fin)
qed

lemma after_full_scale:
  "pressure0 (after (loop (sample_inputs 1023 t) boot)) = Fin 2250"
  by (simp add: after_loop_unset not_to_bool_boot sample_simps pressure_of_Fin pressure_real_def)

lemma reversed_flow_frame:
  "pressure_Pa (loop (sample_inputs 0 (Fin 20)) (after (loop (sample_inputs 1023 (Fin 20)) boot)))
     = Fin (- 2500)"
  "dynamicPressure (loop (sample_inputs 0 (Fin 20)) (after (loop (sample_inputs 1023 (Fin 20)) boot)))
     = Fin 0"
proof -
  let ?fr = "loop (sample_inputs 0 (Fin 20)) (after (loop (sample_inputs 1023 (Fin 20)) boot))"
  show p: "pressure_Pa ?fr = Fin (- 2500)"
    by (simp add: pressure_Pa_unfolded after_full_scale sample_simps to_bool_def is_zero_def
        fsub_Fin)
  show "dynamicPressure ?fr = Fin 0"
    by (simp add: dynamicPressure_loop p max_macro_Fin)
qed

lemma fallback_derivation:
  assumes "isnan (readTemperature i)" and "dynamicPressure (loop i s) = Fin dp"
    and "0 \<le> dp" and "dp \<le> 2500"
  shows "density (loop i s) = Fin ((101325 - dp) / (28705 / 100 * (17415 / 100)))"
    and "19 / 10 < (101325 - dp) / (28705 / 100 * (17415 / 100))"
    and "(101325 - dp) / (28705 / 100 * (17415 / 100)) < 21 / 10"
    and "windSpeed (loop i s) =
      Fin (sqrt (2 * dp / ((101325 - dp) / (28705 / 100 * (17415 / 100)))))"
proof -
  let ?rho = "(101325 - dp) / (28705 / 100 * (17415 / 100))"
  have tK: "temperatureK (loop i s) = Fin (17415 / 100)"
    using assms(1) by (simp add: temperatureK_loop temperature_loop)
  show rho: "density (loop i s) = Fin ?rho"
    by (simp add: density_loop assms(2) tK to_density_Fin)
  show lo: "19 / 10 < ?rho"
    using assms(4) by (simp add: field_simps)
  show "?rho < 21 / 10"
    using assms(3) by (simp add: field_simps)
  have "0 < ?rho"
    using lo by simp
  then show "windSpeed (loop i s) = Fin (sqrt (2 * dp / ?rho))"
    using assms(3) by (simp only: windSpeed_loop assms(2) rho to_windSpeed_Fin)
qed




section \<open>The claims\<close>

text \<open>
  C1, as the claim states it: whenever the density is zero or negative the emitted wind
  speed is a defined, finite, non-negative value. It fails: line 99 divides and takes
  the square root with no guard. With a reading of \<open>-300\<close> from the thermal sensor and an
  ADC reading of 1023 on the first cycle, the density is negative and the wind speed
  is NaN.
\<close>

theorem windSpeed_guard_counterexample:
  "nonpositive (density (loop (sample_inputs 1023 (Fin (- 300))) boot))
   \<and> windSpeed (loop (sample_inputs 1023 (Fin (- 300))) boot) = NaN
   \<and> \<not> finite_nonneg (windSpeed (loop (sample_inputs 1023 (Fin (- 300))) boot))"
  by (simp add: cold_windSpeed cold_density nonpositive_def finite_nonneg_def)

text \<open>
  C1, amended. When the density is zero or negative the wind speed is not guarded: it
  is \<open>sqrt (2 * dynamicPressure / density)\<close> as \<open>float\<close> arithmetic evaluates it. That
  value is finite and non-negative (a zero) exactly when the dynamic pressure is 0 and
  the density is not a zero, or the density is the negative infinity and the dynamic
  pressure is finite; otherwise it is NaN or the positive infinity. In particular it is
  NaN whenever the density is a negative number and the dynamic pressure is above 0.
\<close>

theorem windSpeed_unguarded:
  assumes "nonpositive (density (loop i s))"
  shows "windSpeed (loop i s) =
      fsqrt (fdiv (fmul (Fin 2) (dynamicPressure (loop i s))) (density (loop i s)))
    \<and> (finite_nonneg (windSpeed (loop i s)) \<longleftrightarrow>
         (dynamicPressure (loop i s) = Fin 0 \<and> \<not> is_zero (density (loop i s)))
         \<or> (density (loop i s) = NInf \<and> dynamicPressure (loop i s) \<noteq> PInf))
    \<and> ((\<exists>d. d < 0 \<and> density (loop i s) = Fin d) \<and> fgt (dynamicPressure (loop i s)) (Fin 0)
         \<longrightarrow> windSpeed (loop i s) = NaN)"
proof (intro conjI)
  show "windSpeed (loop i s) =
      fsqrt (fdiv (fmul (Fin 2) (dynamicPressure (loop i s))) (density (loop i s)))"
    by (simp only: windSpeed_loop to_windSpeed_def)
  show "finite_nonneg (windSpeed (loop i s)) \<longleftrightarrow>
         (dynamicPressure (loop i s) = Fin 0 \<and> \<not> is_zero (density (loop i s)))
         \<or> (density (loop i s) = NInf \<and> dynamicPressure (loop i s) \<noteq> PInf)"
    using dynamicPressure_cases [of i s]
  proof
    assume inf: "dynamicPressure (loop i s) = PInf"
    then show ?thesis
      using to_windSpeed_PInf [OF assms] by (simp add: windSpeed_loop)
  next
    assume "\<exists>x. 0 \<le> x \<and> dynamicPressure (loop i s) = Fin x"
    then obtain x where x: "0 \<le> x" "dynamicPressure (loop i s) = Fin x"
      by blast
    then show ?thesis
      using to_windSpeed_nonpositive [OF x(1) assms] by (simp add: windSpeed_loop)
  qed
  show "(\<exists>d. d < 0 \<and> density (loop i s) = Fin d) \<and> fgt (dynamicPressure (loop i s)) (Fin 0)
         \<longrightarrow> windSpeed (loop i s) = NaN"
  proof
    assume a: "(\<exists>d. d < 0 \<and> density (loop i s) = Fin d) \<and> fgt (dynamicPressure (loop i s)) (Fin 0)"
    then obtain d where d: "d < 0" "density (loop i s) = Fin d"
      by blast
    from dynamicPressure_cases [of i s] show "windSpeed (loop i s) = NaN"
    proof
      assume "dynamicPressure (loop i s) = PInf"
      then show ?thesis
        using d by (simp add: windSpeed_loop to_windSpeed_PInf_negative)
    next
      assume "\<exists>x. 0 \<le> x \<and> dynamicPressure (loop i s) = Fin x"
      then obtain x where x: "dynamicPressure (loop i s) = Fin x"
        by blast
      with a have "0 < x"
        by simp
      then show ?thesis
        using d x by (simp add: windSpeed_loop to_windSpeed_negative)
    qed
  qed
qed

theorem windSpeed_unguarded_witness:
  "nonpositive (density (loop (sample_inputs 1023 (Fin (- 300))) boot))
   \<and> fgt (dynamicPressure (loop (sample_inputs 1023 (Fin (- 300))) boot)) (Fin 0)
   \<and> windSpeed (loop (sample_inputs 1023 (Fin (- 300))) boot) = NaN
   \<and> nonpositive (density (loop (sample_inputs 0 (Fin (- 300))) boot))
   \<and> dynamicPressure (loop (sample_inputs 0 (Fin (- 300))) boot) = Fin 0
   \<and> finite_nonneg (windSpeed (loop (sample_inputs 0 (Fin (- 300))) boot))"
proof -
  let ?cold = "loop (sample_inputs 1023 (Fin (- 300))) boot"
  let ?still = "loop (sample_inputs 0 (Fin (- 300))) boot"
  have c1: "nonpositive (density ?cold)"
    by (simp add: cold_density nonpositive_def)
  have c2: "fgt (dynamicPressure ?cold) (Fin 0)"
    by (simp add: cold_dynamicPressure)
  have c3: "\<exists>d. d < 0 \<and> density ?cold = Fin d"
    by (simp add: cold_density)
  have c4: "windSpeed ?cold = NaN"
    using windSpeed_unguarded [OF c1] c2 c3 by blast
  have s1: "nonpositive (density ?still)"
    by (simp add: still_density nonpositive_def)
  have s2: "\<not> is_zero (density ?still)"
    by (simp add: still_density is_zero_def)
  have s3: "finite_nonneg (windSpeed ?still)"
    using windSpeed_unguarded [OF s1] still_dynamicPressure s2 by blast
  from c1 c2 c4 s1 still_dynamicPressure s3 show ?thesis
    by blast
qed

text \<open>
  C2. The baseline changes once. While it is zero (not yet set) a cycle stores its
  uncorrected pressure in it: a non-zero pressure is thereby captured, a zero pressure
  leaves it not yet set, so the capture is tried again on the next cycle. Once it is
  non-zero no cycle changes it, in any run. The uncorrected pressure of an integer ADC
  reading is never zero, so from the initial state every cycle of a run ends with the
  pressure of the first cycle as baseline. On a cycle right after the capture with the
  same ADC reading the dynamic pressure is 0.
\<close>

theorem baseline_captured_once:
  "(\<not> to_bool p0 \<and> to_bool p \<longrightarrow> snd (zero_offset p p0) = p)
   \<and> (\<not> to_bool p0 \<and> \<not> to_bool p \<longrightarrow> \<not> to_bool (snd (zero_offset p p0)))
   \<and> (to_bool p0 \<longrightarrow> snd (zero_offset p p0) = p0)
   \<and> pressure0 (after (loop i s)) = snd (zero_offset (raw_Pa (loop i s)) (pressure0 s))
   \<and> to_bool (raw_Pa (loop i s))
   \<and> (to_bool (pressure0 s) \<longrightarrow> (\<forall>fr \<in> set (run s rest). pressure0 (after fr) = pressure0 s))
   \<and> (\<forall>fr \<in> set (run boot (i # rest)). pressure0 (after fr) = raw_Pa (loop i boot))
   \<and> (\<not> to_bool (pressure0 s) \<and> analogRead j = analogRead i \<longrightarrow>
        dynamicPressure (loop j (after (loop i s))) = Fin 0)"
proof (intro conjI)
  show "\<not> to_bool p0 \<and> to_bool p \<longrightarrow> snd (zero_offset p p0) = p"
    by (simp add: zero_offset_def)
  show "\<not> to_bool p0 \<and> \<not> to_bool p \<longrightarrow> \<not> to_bool (snd (zero_offset p p0))"
    by (simp add: zero_offset_def)
  show "to_bool p0 \<longrightarrow> snd (zero_offset p p0) = p0"
    by (simp add: zero_offset_def)
  show "pressure0 (after (loop i s)) = snd (zero_offset (raw_Pa (loop i s)) (pressure0 s))"
    by (simp add: after_loop raw_Pa_loop)
  show "to_bool (raw_Pa (loop i s))"
    by (simp add: raw_Pa_loop to_bool_pressure_of)
  show "to_bool (pressure0 s) \<longrightarrow> (\<forall>fr \<in> set (run s rest). pressure0 (after fr) = pressure0 s)"
    using run_keeps_baseline by blast
  show "\<forall>fr \<in> set (run boot (i # rest)). pressure0 (after fr) = raw_Pa (loop i boot)"
    using run_from_unset [OF not_to_bool_boot] by (simp only: raw_Pa_loop) blast
  show "\<not> to_bool (pressure0 s) \<and> analogRead j = analogRead i \<longrightarrow>
        dynamicPressure (loop j (after (loop i s))) = Fin 0"
    using dp_after_capture by blast
qed

theorem baseline_captured_once_witness:
  "\<not> to_bool (Fin 0) \<and> to_bool (Fin 3) \<and> snd (zero_offset (Fin 3) (Fin 0)) = Fin 3
   \<and> \<not> to_bool NZero \<and> \<not> to_bool (snd (zero_offset NZero (Fin 0)))
   \<and> to_bool (Fin 7) \<and> snd (zero_offset (Fin 3) (Fin 7)) = Fin 7
   \<and> loop (sample_inputs 600 (Fin 20)) (after (loop (sample_inputs 512 (Fin 20)) boot))
       \<in> set (run boot [sample_inputs 512 (Fin 20), sample_inputs 600 (Fin 20)])
   \<and> pressure0 (after (loop (sample_inputs 600 (Fin 20))
        (after (loop (sample_inputs 512 (Fin 20)) boot)))) = Fin (1024250 / 1023)
   \<and> \<not> to_bool (pressure0 boot)
   \<and> dynamicPressure (loop (sample_inputs 512 (Fin 20))
        (after (loop (sample_inputs 512 (Fin 20)) boot))) = Fin 0"
proof -
  let ?i = "sample_inputs 512 (Fin 20)" and ?j = "sample_inputs 600 (Fin 20)"
  note capture = baseline_captured_once [where ?p0.0 = "Fin 0" and p = "Fin 3" and i = ?i
      and s = boot and j = ?i and rest = "[?j]"]
  note retry = baseline_captured_once [where ?p0.0 = "Fin 0" and p = NZero and i = ?i
      and s = boot and j = ?i and rest = "[?j]"]
  note keep = baseline_captured_once [where ?p0.0 = "Fin 7" and p = "Fin 3" and i = ?i
      and s = boot and j = ?i and rest = "[?j]"]
  have b: "\<not> to_bool (Fin 0)" "to_bool (Fin 3)" "\<not> to_bool NZero" "to_bool (Fin 7)"
    by (simp_all add: to_bool_def is_zero_def)
  have c1: "snd (zero_offset (Fin 3) (Fin 0)) = Fin 3"
    using capture b by blast
  have c2: "\<not> to_bool (snd (zero_offset NZero (Fin 0)))"
    using retry b by blast
  have c3: "snd (zero_offset (Fin 3) (Fin 7)) = Fin 7"
    using keep b by blast
  have m: "loop ?j (after (loop ?i boot)) \<in> set (run boot [?i, ?j])"
    by (simp add: run2 del: run.simps)
  have "pressure0 (after (loop ?j (after (loop ?i boot)))) = raw_Pa (loop ?i boot)"
    using capture m by blast
  then have c4: "pressure0 (after (loop ?j (after (loop ?i boot)))) = Fin (1024250 / 1023)"
    by (simp add: raw_Pa_loop sample_simps pressure_of_Fin pressure_real_def)
  have c5: "dynamicPressure (loop ?i (after (loop ?i boot))) = Fin 0"
    using capture not_to_bool_boot by blast
  show ?thesis
    using b c1 c2 c3 m c4 not_to_bool_boot c5 by blast
qed

text \<open>
  C3. For every raw ADC input, every baseline and every other input of the cycle:
  \<open>pressure_Pa\<close> is the pressure of the ADC reading, less the baseline when one is set;
  the dynamic pressure is \<open>max\<close> of it and 0, that is \<open>pressure_Pa\<close> when that is above
  0 and 0 otherwise; it is never negative (not below zero, sign bit clear, not NaN);
  and it is this clamped value that the density and the wind speed of the emitted row
  are derived from. Three cycles show the clamp at work: a reading of 0 from the initial
  state (pressure \<open>-250\<close>, dynamic pressure 0, wind speed 0 in the row), a reading of 0
  after a baseline of 2250 (pressure \<open>-2500\<close>, dynamic pressure 0), and a reading of 1023
  from the initial state (dynamic pressure 2250).
\<close>

theorem dynamicPressure_clamped:
  "pressure_Pa (loop i s) =
     (if to_bool (pressure0 s)
      then fsub (Fin ((of_int (analogRead i) * 5 / 1023 - 1 / 2) * 500)) (pressure0 s)
      else Fin ((of_int (analogRead i) * 5 / 1023 - 1 / 2) * 500))
   \<and> dynamicPressure (loop i s) = max_macro (pressure_Pa (loop i s)) (Fin 0)
   \<and> dynamicPressure (loop i s) =
       (if fgt (pressure_Pa (loop i s)) (Fin 0) then pressure_Pa (loop i s) else Fin 0)
   \<and> \<not> fgt (Fin 0) (dynamicPressure (loop i s))
   \<and> \<not> sign_bit (dynamicPressure (loop i s))
   \<and> \<not> isnan (dynamicPressure (loop i s))
   \<and> density (loop i s) =
       fdiv (fsub (Fin 101325) (dynamicPressure (loop i s)))
         (fmul (Fin (28705 / 100)) (fadd (temperature (loop i s)) (Fin (27315 / 100))))
   \<and> windSpeed (loop i s) =
       fsqrt (fdiv (fmul (Fin 2) (dynamicPressure (loop i s))) (density (loop i s)))
   \<and> csv_fields (data_row (loop i s)) =
       Some [(windSpeed (loop i s), 2), (density (loop i s), 3), (f1 (loop i s), 2),
             (f2 (loop i s), 2), (f3 (loop i s), 2), (f4 (loop i s), 2),
             (temperature (loop i s), 1)]
   \<and> pressure_Pa (loop (sample_inputs 0 (Fin 20)) boot) = Fin (- 250)
   \<and> dynamicPressure (loop (sample_inputs 0 (Fin 20)) boot) = Fin 0
   \<and> csv_fields (data_row (loop (sample_inputs 0 (Fin 20)) boot)) =
       Some [(Fin 0, 2), (Fin (101325 / (28705 / 100 * (29315 / 100))), 3), (Fin 1, 2),
             (Fin 2, 2), (Fin 3, 2), (Fin 4, 2), (Fin 20, 1)]
   \<and> pressure_Pa (loop (sample_inputs 0 (Fin 20))
        (after (loop (sample_inputs 1023 (Fin 20)) boot))) = Fin (- 2500)
   \<and> dynamicPressure (loop (sample_inputs 0 (Fin 20))
        (after (loop (sample_inputs 1023 (Fin 20)) boot))) = Fin 0
   \<and> dynamicPressure (loop (sample_inputs 1023 (Fin 20)) boot) = Fin 2250"
proof -
  have clamp: "dynamicPressure (loop i s) = max_macro (pressure_Pa (loop i s)) (Fin 0)"
    by (rule dynamicPressure_loop)
  have clamp_if: "dynamicPressure (loop i s) =
       (if fgt (pressure_Pa (loop i s)) (Fin 0) then pressure_Pa (loop i s) else Fin 0)"
    by (simp only: clamp max_macro_def)
  have nonneg: "\<not> fgt (Fin 0) (dynamicPressure (loop i s))
      \<and> \<not> sign_bit (dynamicPressure (loop i s)) \<and> \<not> isnan (dynamicPressure (loop i s))"
    using max_macro_zero_cases [of "pressure_Pa (loop i s)"]
    by (auto simp: dynamicPressure_loop isnan_def)
  have row: "csv_fields (data_row (loop i s)) =
       Some [(windSpeed (loop i s), 2), (density (loop i s), 3), (f1 (loop i s), 2),
             (f2 (loop i s), 2), (f3 (loop i s), 2), (f4 (loop i s), 2),
             (temperature (loop i s), 1)]" for i s
    by (simp add: data_row_loop csv_fields_csv_row)
  have p0: "pressure_Pa (loop (sample_inputs 0 (Fin 20)) boot) = Fin (- 250)"
    by (simp add: pressure_Pa_unfolded not_to_bool_boot sample_simps)
  have row0: "csv_fields (data_row (loop (sample_inputs 0 (Fin 20)) boot)) =
       Some [(Fin 0, 2), (Fin (101325 / (28705 / 100 * (29315 / 100))), 3), (Fin 1, 2),
             (Fin 2, 2), (Fin 3, 2), (Fin 4, 2), (Fin 20, 1)]"
    by (simp add: row zero_reading_frame f1_loop f2_loop f3_loop f4_loop temperature_loop
        sample_simps isnan_def)
  have full: "dynamicPressure (loop (sample_inputs 1023 (Fin 20)) boot) = Fin 2250"
    by (simp add: boot_dynamicPressure pressure_real_def)
  from pressure_Pa_unfolded [of i s] clamp clamp_if nonneg density_unfolded [of i s]
    windSpeed_unfolded [of i s] row [of i s] p0 zero_reading_frame(1) row0
    reversed_flow_frame full
  show ?thesis
    by blast
qed

text \<open>
  C4. When \<open>dht.readTemperature()\<close> returns NaN, the temperature used and printed is
  exactly \<open>-99\<close>, the temperature in kelvin is \<open>174.15\<close>, the density is
  \<open>(101325 - dynamicPressure) / (287.05 * 174.15)\<close> and the wind speed the square root of
  \<open>2 * dynamicPressure / density\<close>, and the cycle still writes its row of seven fields,
  the last of them \<open>-99\<close> with one decimal. For an ADC reading in \<open>[0, 1023]\<close> and a
  baseline that is the initial zero or the pressure of such a reading, the derivation
  gives numbers: a dynamic pressure between 0 and 2500, a density between 1.9 and 2.1,
  and the wind speed \<open>sqrt (2 * dp / rho)\<close>.
\<close>

theorem thermal_fallback:
  assumes "isnan (readTemperature i)"
  shows "temperature (loop i s) = Fin (- 99)
    \<and> temperatureK (loop i s) = Fin (17415 / 100)
    \<and> density (loop i s) = to_density (dynamicPressure (loop i s)) (Fin (17415 / 100))
    \<and> windSpeed (loop i s) = to_windSpeed (dynamicPressure (loop i s)) (density (loop i s))
    \<and> density (loop i s) =
        fdiv (fsub (Fin 101325) (dynamicPressure (loop i s)))
          (fmul (Fin (28705 / 100)) (Fin (17415 / 100)))
    \<and> windSpeed (loop i s) =
        fsqrt (fdiv (fmul (Fin 2) (dynamicPressure (loop i s))) (density (loop i s)))
    \<and> csv_fields (data_row (loop i s)) =
        Some [(windSpeed (loop i s), 2), (density (loop i s), 3), (f1 (loop i s), 2),
              (f2 (loop i s), 2), (f3 (loop i s), 2), (f4 (loop i s), 2), (Fin (- 99), 1)]
    \<and> (0 \<le> analogRead i \<and> analogRead i \<le> 1023 \<and> baseline_reachable s \<longrightarrow>
        (\<exists>dp. dynamicPressure (loop i s) = Fin dp \<and> 0 \<le> dp \<and> dp \<le> 2500
          \<and> density (loop i s) = Fin ((101325 - dp) / (28705 / 100 * (17415 / 100)))
          \<and> 19 / 10 < (101325 - dp) / (28705 / 100 * (17415 / 100))
          \<and> (101325 - dp) / (28705 / 100 * (17415 / 100)) < 21 / 10
          \<and> windSpeed (loop i s) =
              Fin (sqrt (2 * dp / ((101325 - dp) / (28705 / 100 * (17415 / 100)))))))"
proof -
  have t: "temperature (loop i s) = Fin (- 99)"
    using assms by (simp add: temperature_loop)
  have tK: "temperatureK (loop i s) = Fin (17415 / 100)"
    using assms by (simp add: temperatureK_loop temperature_loop)
  have rho: "density (loop i s) = to_density (dynamicPressure (loop i s)) (Fin (17415 / 100))"
    by (simp only: density_loop tK)
  have ws: "windSpeed (loop i s) = to_windSpeed (dynamicPressure (loop i s)) (density (loop i s))"
    by (rule windSpeed_loop)
  have rho': "density (loop i s) =
        fdiv (fsub (Fin 101325) (dynamicPressure (loop i s)))
          (fmul (Fin (28705 / 100)) (Fin (17415 / 100)))"
    by (simp only: rho to_density_def atm_pressure_def)
  have row: "csv_fields (data_row (loop i s)) =
        Some [(windSpeed (loop i s), 2), (density (loop i s), 3), (f1 (loop i s), 2),
              (f2 (loop i s), 2), (f3 (loop i s), 2), (f4 (loop i s), 2), (Fin (- 99), 1)]"
    by (simp add: data_row_loop csv_fields_csv_row t)
  have num: "0 \<le> analogRead i \<and> analogRead i \<le> 1023 \<and> baseline_reachable s \<longrightarrow>
        (\<exists>dp. dynamicPressure (loop i s) = Fin dp \<and> 0 \<le> dp \<and> dp \<le> 2500
          \<and> density (loop i s) = Fin ((101325 - dp) / (28705 / 100 * (17415 / 100)))
          \<and> 19 / 10 < (101325 - dp) / (28705 / 100 * (17415 / 100))
          \<and> (101325 - dp) / (28705 / 100 * (17415 / 100)) < 21 / 10
          \<and> windSpeed (loop i s) =
              Fin (sqrt (2 * dp / ((101325 - dp) / (28705 / 100 * (17415 / 100))))))"
  proof
    assume "0 \<le> analogRead i \<and> analogRead i \<le> 1023 \<and> baseline_reachable s"
    then obtain dp where dp: "dynamicPressure (loop i s) = Fin dp" "0 \<le> dp" "dp \<le> 2500"
      using dynamicPressure_reachable [of i s] by blast
    from fallback_derivation [OF assms dp] dp
    show "\<exists>dp. dynamicPressure (loop i s) = Fin dp \<and> 0 \<le> dp \<and> dp \<le> 2500
          \<and> density (loop i s) = Fin ((101325 - dp) / (28705 / 100 * (17415 / 100)))
          \<and> 19 / 10 < (101325 - dp) / (28705 / 100 * (17415 / 100))
          \<and> (101325 - dp) / (28705 / 100 * (17415 / 100)) < 21 / 10
          \<and> windSpeed (loop i s) =
              Fin (sqrt (2 * dp / ((101325 - dp) / (28705 / 100 * (17415 / 100)))))"
      by blast
  qed
  from t tK rho ws rho' windSpeed_unfolded [of i s] row num show ?thesis
    by blast
qed

theorem thermal_fallback_witness:
  "isnan (readTemperature (sample_inputs 512 NaN))
   \<and> 0 \<le> analogRead (sample_inputs 512 NaN) \<and> analogRead (sample_inputs 512 NaN) \<le> 1023
   \<and> baseline_reachable boot
   \<and> temperature (loop (sample_inputs 512 NaN) boot) = Fin (- 99)
   \<and> temperatureK (loop (sample_inputs 512 NaN) boot) = Fin (17415 / 100)
   \<and> dynamicPressure (loop (sample_inputs 512 NaN) boot) = Fin (1024250 / 1023)
   \<and> density (loop (sample_inputs 512 NaN) boot) =
       Fin ((101325 - 1024250 / 1023) / (28705 / 100 * (17415 / 100)))
   \<and> windSpeed (loop (sample_inputs 512 NaN) boot) =
       Fin (sqrt (2 * (1024250 / 1023) / ((101325 - 1024250 / 1023) / (28705 / 100 * (17415 / 100)))))
   \<and> 2006 / 1000 < (101325 - 1024250 / 1023) / (28705 / 100 * (17415 / 100) :: real)
   \<and> (101325 - 1024250 / 1023) / (28705 / 100 * (17415 / 100) :: real) < 2007 / 1000
   \<and> 315 / 10 <
       sqrt (2 * (1024250 / 1023) / ((101325 - 1024250 / 1023) / (28705 / 100 * (17415 / 100))))
   \<and> sqrt (2 * (1024250 / 1023) / ((101325 - 1024250 / 1023) / (28705 / 100 * (17415 / 100))))
       < 316 / 10
   \<and> map_option length (csv_fields (data_row (loop (sample_inputs 512 NaN) boot))) = Some 7"
proof -
  let ?i = "sample_inputs 512 NaN"
  have h: "isnan (readTemperature ?i)"
    by (simp add: sample_simps isnan_def)
  have r: "0 \<le> analogRead ?i" "analogRead ?i \<le> 1023"
    by (simp_all add: sample_simps)
  note fb = thermal_fallback [OF h, of boot]
  have dp: "dynamicPressure (loop ?i boot) = Fin (1024250 / 1023)"
    by (simp add: boot_dynamicPressure pressure_real_def)
  from fb r baseline_reachable_boot obtain x where
    x: "dynamicPressure (loop ?i boot) = Fin x"
      "density (loop ?i boot) = Fin ((101325 - x) / (28705 / 100 * (17415 / 100)))"
      "windSpeed (loop ?i boot) =
        Fin (sqrt (2 * x / ((101325 - x) / (28705 / 100 * (17415 / 100)))))"
    by blast
  from x(1) dp have xv: "x = 1024250 / 1023"
    by simp
  have b1: "2006 / 1000 < (101325 - 1024250 / 1023) / (28705 / 100 * (17415 / 100) :: real)"
    and b2: "(101325 - 1024250 / 1023) / (28705 / 100 * (17415 / 100) :: real) < 2007 / 1000"
    by simp_all
  have b3: "315 / 10 <
       sqrt (2 * (1024250 / 1023) / ((101325 - 1024250 / 1023) / (28705 / 100 * (17415 / 100))))"
    by (rule real_less_rsqrt) (simp add: power2_eq_square)
  have b4: "sqrt (2 * (1024250 / 1023) / ((101325 - 1024250 / 1023) / (28705 / 100 * (17415 / 100))))
       < 316 / 10"
    by (rule real_less_lsqrt) (simp_all add: power2_eq_square)
  have len: "map_option length (csv_fields (data_row (loop ?i boot))) = Some 7"
    using fb by simp
  from fb have t: "temperature (loop ?i boot) = Fin (- 99)"
    and tK: "temperatureK (loop ?i boot) = Fin (17415 / 100)"
    by blast+
  from h r baseline_reachable_boot t tK dp x(2,3) [unfolded xv] b1 b2 b3 b4 len show ?thesis
    by blast
qed

text \<open>
  C5. A weight channel whose \<open>is_ready()\<close> is false contributes exactly 0 to the cycle:
  \<open>get_units()\<close> is not called and the local stays at its initial 0. When all four are
  not ready the four load fields of the row are 0 printed with 2 decimals, and the other
  three fields are what they are for any other state of the four channels.
\<close>

theorem not_ready_contributes_zero:
  "(\<not> is_ready (scale1 i) \<longrightarrow> f1 (loop i s) = Fin 0)
   \<and> (\<not> is_ready (scale2 i) \<longrightarrow> f2 (loop i s) = Fin 0)
   \<and> (\<not> is_ready (scale3 i) \<longrightarrow> f3 (loop i s) = Fin 0)
   \<and> (\<not> is_ready (scale4 i) \<longrightarrow> f4 (loop i s) = Fin 0)
   \<and> (\<not> is_ready (scale1 i) \<and> \<not> is_ready (scale2 i) \<and> \<not> is_ready (scale3 i)
        \<and> \<not> is_ready (scale4 i) \<longrightarrow>
      csv_fields (data_row (loop i s)) =
        Some [(windSpeed (loop i s), 2), (density (loop i s), 3), (Fin 0, 2), (Fin 0, 2),
              (Fin 0, 2), (Fin 0, 2), (temperature (loop i s), 1)])
   \<and> windSpeed (loop (i\<lparr>scale1 := a, scale2 := b, scale3 := c, scale4 := d\<rparr>) s) = windSpeed (loop i s)
   \<and> density (loop (i\<lparr>scale1 := a, scale2 := b, scale3 := c, scale4 := d\<rparr>) s) = density (loop i s)
   \<and> temperature (loop (i\<lparr>scale1 := a, scale2 := b, scale3 := c, scale4 := d\<rparr>) s)
       = temperature (loop i s)"
  by (simp add: data_row_loop csv_fields_csv_row f1_loop f2_loop f3_loop f4_loop
      windSpeed_loop density_loop temperatureK_loop temperature_loop dynamicPressure_loop
      pressure_Pa_loop)

theorem not_ready_contributes_zero_witness:
  "\<not> is_ready (scale1 all_not_ready) \<and> \<not> is_ready (scale2 all_not_ready)
   \<and> \<not> is_ready (scale3 all_not_ready) \<and> \<not> is_ready (scale4 all_not_ready)
   \<and> f1 (loop all_not_ready boot) = Fin 0 \<and> f2 (loop all_not_ready boot) = Fin 0
   \<and> f3 (loop all_not_ready boot) = Fin 0 \<and> f4 (loop all_not_ready boot) = Fin 0
   \<and> csv_fields (data_row (loop all_not_ready boot)) =
        Some [(windSpeed (loop all_not_ready boot), 2), (density (loop all_not_ready boot), 3),
              (Fin 0, 2), (Fin 0, 2), (Fin 0, 2), (Fin 0, 2), (Fin 20, 1)]"
  using not_ready_contributes_zero [of all_not_ready boot]
  by (simp add: all_not_ready_simps temperature_loop isnan_def)

text \<open>
  C6. Whatever the sensors returned, the last line a cycle writes is a CSV row of exactly
  seven fields, in the order of the header: wind speed (2 decimals), density (3), the
  four loads (2 each) and the temperature (1). The only other line a cycle can write is
  the notice of a failed DHT11 read, before the row.
\<close>

theorem csv_row_seven_fields:
  "serial_lines (serial (loop i s)) =
     (if isnan (readTemperature i) then [[Println_str dht_failed]] else []) @ [data_row (loop i s)]
   \<and> csv_fields (data_row (loop i s)) =
       Some [(windSpeed (loop i s), 2), (density (loop i s), 3), (f1 (loop i s), 2),
             (f2 (loop i s), 2), (f3 (loop i s), 2), (f4 (loop i s), 2),
             (temperature (loop i s), 1)]
   \<and> map_option length (csv_fields (data_row (loop i s))) = Some 7"
  by (simp add: data_row_loop serial_lines_loop csv_fields_csv_row)

text \<open>
  C7, as the claim states it: the notice of a failed thermal read is not on the stream
  that carries the CSV rows. It fails: the sketch has one output device, and on a cycle
  whose read fails the notice is the line before the row on that device.
\<close>

theorem notice_not_on_side_channel:
  "serial_lines (serial (loop (sample_inputs 512 NaN) boot)) =
     [[Println_str dht_failed], data_row (loop (sample_inputs 512 NaN) boot)]
   \<and> last (data_row (loop (sample_inputs 512 NaN) boot)) = Println_float (Fin (- 99)) 1"
  by (simp add: serial_lines_loop data_row_loop sample_simps isnan_def temperature_loop csv_row_def)

text \<open>
  C7, amended. When the thermal read fails, the notice is written with \<open>Serial.println\<close>
  on the same stream as the CSV rows, as a line of its own immediately before the row
  of that cycle.
\<close>

theorem notice_on_data_stream:
  assumes "isnan (readTemperature i)"
  shows "serial (loop i s) = Println_str dht_failed # data_row (loop i s)
    \<and> serial_lines (serial (loop i s)) = [[Println_str dht_failed], data_row (loop i s)]"
  using assms by (simp add: serial_lines_loop data_row_loop serial_loop serial_lines_csv_row)

theorem notice_on_data_stream_witness:
  "isnan (readTemperature (sample_inputs 512 NaN))
   \<and> serial (loop (sample_inputs 512 NaN) boot) =
       Println_str dht_failed # data_row (loop (sample_inputs 512 NaN) boot)
   \<and> serial_lines (serial (loop (sample_inputs 512 NaN) boot)) =
       [[Println_str dht_failed], data_row (loop (sample_inputs 512 NaN) boot)]"
proof -
  have h: "isnan (readTemperature (sample_inputs 512 NaN))"
    by (simp add: sample_simps isnan_def)
  show ?thesis
    using h notice_on_data_stream [OF h, of boot] by blast
qed

text \<open>
  C8. With the constants of the sketch (supply 5.0 V, range 2 kPa, offset 0.5 V) an ADC
  reading of 512 gives, before the zero offset, a pressure of 1024250/1023 Pa, which is
  within 1.25 Pa of 1000 Pa.
\<close>

theorem pressure_at_512:
  "raw_Pa (loop (i\<lparr>analogRead := 512\<rparr>) s) = Fin (1024250 / 1023)
   \<and> \<bar>val (raw_Pa (loop (i\<lparr>analogRead := 512\<rparr>) s)) - 1000\<bar> < 5 / 4
   \<and> Vcc = Fin 5 \<and> P_max = Fin 2 \<and> V_offset = Fin (1 / 2)"
  by (simp add: raw_Pa_loop pressure_of_Fin pressure_real_def Vcc_def P_max_def V_offset_def)




text \<open>
  C10. On a cycle that starts with the baseline not set (zero), nothing is subtracted:
  \<open>pressure_Pa\<close> stays the uncorrected pressure, the dynamic pressure is its clamp, and
  the baseline becomes that pressure. The subtraction starts on the next cycle. So the
  first row can show a non-zero dynamic pressure and wind speed: from the initial state,
  an ADC reading of 103 (0.503 V, next to the 0.5 V of zero flow) at 20 degrees gives a
  dynamic pressure and a wind speed above zero.
\<close>

theorem capture_cycle_uncorrected:
  assumes "\<not> to_bool (pressure0 s)"
  shows "pressure_Pa (loop i s) = raw_Pa (loop i s)
    \<and> dynamicPressure (loop i s) = max_macro (raw_Pa (loop i s)) (Fin 0)
    \<and> pressure0 (after (loop i s)) = raw_Pa (loop i s)
    \<and> pressure_Pa (loop j (after (loop i s))) =
        fsub (raw_Pa (loop j (after (loop i s)))) (raw_Pa (loop i s))
    \<and> fgt (dynamicPressure (loop (sample_inputs 103 (Fin 20)) boot)) (Fin 0)
    \<and> fgt (windSpeed (loop (sample_inputs 103 (Fin 20)) boot)) (Fin 0)"
proof -
  have unset: "pressure_Pa (loop i s) = raw_Pa (loop i s)"
    using assms by (simp add: pressure_Pa_loop raw_Pa_loop zero_offset_unset)
  have captured: "pressure0 (after (loop i s)) = raw_Pa (loop i s)"
    using assms by (simp add: after_loop_unset raw_Pa_loop)
  then have "to_bool (pressure0 (after (loop i s)))"
    by (simp add: raw_Pa_loop to_bool_pressure_of)
  then have "pressure_Pa (loop j (after (loop i s))) =
      fsub (raw_Pa (loop j (after (loop i s)))) (pressure0 (after (loop i s)))"
    by (simp add: pressure_Pa_loop raw_Pa_loop zero_offset_set)
  then have next_cycle: "pressure_Pa (loop j (after (loop i s))) =
      fsub (raw_Pa (loop j (after (loop i s)))) (raw_Pa (loop i s))"
    by (simp only: captured)
  have dp: "dynamicPressure (loop i s) = max_macro (raw_Pa (loop i s)) (Fin 0)"
    by (simp only: dynamicPressure_loop unset)
  have pos: "fgt (dynamicPressure (loop (sample_inputs 103 (Fin 20)) boot)) (Fin 0)"
    by (simp add: first_cycle_103)
  from unset dp captured next_cycle pos first_cycle_103_windSpeed show ?thesis
    by blast
qed

theorem capture_cycle_uncorrected_witness:
  "\<not> to_bool (pressure0 boot)
   \<and> pressure_Pa (loop (sample_inputs 103 (Fin 20)) boot) = Fin (1750 / 1023)
   \<and> dynamicPressure (loop (sample_inputs 103 (Fin 20)) boot) = Fin (1750 / 1023)
   \<and> pressure0 (after (loop (sample_inputs 103 (Fin 20)) boot)) = Fin (1750 / 1023)
   \<and> pressure_Pa (loop (sample_inputs 103 (Fin 20)) (after (loop (sample_inputs 103 (Fin 20)) boot)))
       = Fin 0"
proof -
  let ?i = "sample_inputs 103 (Fin 20)"
  have raw: "raw_Pa (loop ?i s) = Fin (1750 / 1023)" for s
    by (simp add: raw_Pa_loop sample_simps pressure_of_Fin pressure_real_def)
  from capture_cycle_uncorrected [OF not_to_bool_boot, of ?i ?i]
  have "pressure_Pa (loop ?i boot) = Fin (1750 / 1023)
    \<and> dynamicPressure (loop ?i boot) = max_macro (Fin (1750 / 1023)) (Fin 0)
    \<and> pressure0 (after (loop ?i boot)) = Fin (1750 / 1023)
    \<and> pressure_Pa (loop ?i (after (loop ?i boot))) = fsub (Fin (1750 / 1023)) (Fin (1750 / 1023))"
    by (simp only: raw)
  then show ?thesis
    using not_to_bool_boot by (simp add: max_macro_Fin fsub_Fin)
qed

end
